theory Spec2Isabelle
  imports Complex_Main "HOL-Library.AList" "HOL-Library.Multiset" "HOL-Library.List_Lexorder"
begin

section \<open>The accounting store (server/store/accounting.ts): data model\<close>

text \<open>
  The development embeds the branch of every store function that runs when
  \<^verbatim>\<open>getInitializedMysqlPool()\<close> yields null: the in-memory \<^verbatim>\<open>fallbackStore\<close>.
  The other branch hands each step to MySQL through SQL text; the tables, their column
  types and the pool live outside the source files and are not modelled.

  Conventions of the embedding:
  \<^item> a JavaScript string is the list of its UTF-16 code units, so that \<^verbatim>\<open>===\<close> is
    equality and \<^verbatim>\<open>>\<close> on strings is the lexicographic order of the lists;
  \<^item> a JavaScript number is a real: the HTTP layer only passes finite numbers, and
    rounding to binary64 is not modelled;
  \<^item> \<^verbatim>\<open>string | null | undefined\<close> is an option;
  \<^item> a \<^verbatim>\<open>Map\<close> is the list of its entries in insertion order: \<^verbatim>\<open>set\<close> replaces the
    value of a present key where it stands and appends an absent key, \<^verbatim>\<open>delete\<close>
    reports whether the key was present, \<^verbatim>\<open>values()\<close> lists the values in order;
  \<^item> \<^verbatim>\<open>crypto.randomUUID()\<close>, \<^verbatim>\<open>new Date().toISOString()\<close> and the conversion of a number
    to a string inside a template literal are inputs of the functions that use them;
  \<^item> a function that can throw returns the error or its result, and always the store as
    it stands when the function is left.
\<close>

type_synonym jsstring = "nat list"

definition ascii :: "string \<Rightarrow> jsstring" where
  "ascii s = map of_char s"

type_synonym 'v jsmap = "(jsstring \<times> 'v) list"

definition mapGet :: "jsstring \<Rightarrow> 'v jsmap \<Rightarrow> 'v option" where
  "mapGet k m = map_of m k"

definition mapSet :: "jsstring \<Rightarrow> 'v \<Rightarrow> 'v jsmap \<Rightarrow> 'v jsmap" where
  "mapSet k v m = AList.update k v m"

definition mapDelete :: "jsstring \<Rightarrow> 'v jsmap \<Rightarrow> bool \<times> 'v jsmap" where
  "mapDelete k m = (k \<in> set (map fst m), AList.delete k m)"

definition mapValues :: "'v jsmap \<Rightarrow> 'v list" where
  "mapValues m = map snd m"

datatype TransType = Revenue | Expense

datatype MovementKind = In | Out

datatype CostType = Construction | Operation | ExpenseCost

datatype error = TransactionNotFound | InventoryItemNotFound | ProjectNotFound

record Transaction =
  tx_id :: jsstring
  tx_date :: jsstring
  tx_type :: TransType
  tx_description :: jsstring
  tx_amount :: real
  tx_approved :: bool
  tx_createdBy :: "jsstring option"
  tx_createdAt :: "jsstring option"

record InventoryItem =
  item_id :: jsstring
  item_name :: jsstring
  item_updatedAt :: jsstring
  item_quantity :: real
  item_unit :: jsstring
  item_min :: real

record Movement =
  mv_id :: jsstring
  mv_itemId :: jsstring
  mv_kind :: MovementKind
  mv_qty :: real
  mv_unitPrice :: real
  mv_total :: real
  mv_party :: jsstring
  mv_date :: jsstring

record Project =
  prj_id :: jsstring
  prj_name :: jsstring
  prj_location :: jsstring
  prj_floors :: real
  prj_units :: real
  prj_createdAt :: jsstring

record ProjectCost =
  cost_id :: jsstring
  cost_projectId :: jsstring
  cost_type :: CostType
  cost_amount :: real
  cost_date :: jsstring
  cost_note :: jsstring

record ProjectSale =
  sale_id :: jsstring
  sale_projectId :: jsstring
  sale_unitNo :: jsstring
  sale_buyer :: jsstring
  sale_price :: real
  sale_date :: jsstring
  sale_terms :: "jsstring option"
  sale_area :: "jsstring option"
  sale_paymentMethod :: "jsstring option"

record AccountingSnapshot =
  snap_transactions :: "Transaction list"
  snap_items :: "InventoryItem list"
  snap_movements :: "Movement list"
  snap_projects :: "Project list"
  snap_costs :: "ProjectCost list"
  snap_sales :: "ProjectSale list"

record ProjectSnapshot =
  ps_project :: Project
  ps_costs :: "ProjectCost list"
  ps_sales :: "ProjectSale list"

record TransactionCreateInput =
  tci_date :: jsstring
  tci_type :: TransType
  tci_description :: jsstring
  tci_amount :: real
  tci_approved :: bool
  tci_createdBy :: "jsstring option"

record InventoryItemCreateInput =
  ici_name :: jsstring
  ici_quantity :: real
  ici_unit :: jsstring
  ici_min :: real
  ici_updatedAt :: jsstring

record InventoryReceiptInput =
  rcp_itemId :: jsstring
  rcp_qty :: real
  rcp_unitPrice :: real
  rcp_supplier :: jsstring
  rcp_date :: jsstring
  rcp_approved :: bool
  rcp_createdBy :: "jsstring option"

record InventoryIssueInput =
  iss_itemId :: jsstring
  iss_qty :: real
  iss_unitPrice :: real
  iss_project :: jsstring
  iss_date :: jsstring
  iss_approved :: bool
  iss_createdBy :: "jsstring option"

record InventoryMovementResult =
  res_item :: InventoryItem
  res_movement :: Movement
  res_transaction :: Transaction

record ProjectCreateInput =
  pci_name :: jsstring
  pci_location :: jsstring
  pci_floors :: real
  pci_units :: real
  pci_createdAt :: jsstring

record ProjectCostCreateInput =
  pcc_projectId :: jsstring
  pcc_projectName :: jsstring
  pcc_type :: CostType
  pcc_amount :: real
  pcc_date :: jsstring
  pcc_note :: jsstring
  pcc_approved :: bool
  pcc_createdBy :: "jsstring option"

record ProjectCostCreateResult =
  pcr_cost :: ProjectCost
  pcr_transaction :: Transaction

record ProjectSaleCreateInput =
  psc_projectId :: jsstring
  psc_projectName :: jsstring
  psc_unitNo :: jsstring
  psc_buyer :: jsstring
  psc_price :: real
  psc_date :: jsstring
  psc_terms :: "jsstring option"
  psc_area :: "jsstring option"
  psc_paymentMethod :: "jsstring option"
  psc_approved :: bool
  psc_createdBy :: "jsstring option"

record ProjectSaleCreateResult =
  psr_sale :: ProjectSale
  psr_transaction :: Transaction

record fallbackStore =
  transactions :: "Transaction jsmap"
  items :: "InventoryItem jsmap"
  movements :: "Movement jsmap"
  projects :: "Project jsmap"
  costs :: "ProjectCost jsmap"
  sales :: "ProjectSale jsmap"

definition emptyStore :: fallbackStore where
  "emptyStore = \<lparr>transactions = [], items = [], movements = [], projects = [],
     costs = [], sales = []\<rparr>"

section \<open>Transactions\<close>

text \<open>\<^verbatim>\<open>createTransactionFallback\<close>: \<open>uuid\<close> is the value of \<^verbatim>\<open>crypto.randomUUID()\<close>,
  \<open>now\<close> the value of \<^verbatim>\<open>new Date().toISOString()\<close>.\<close>

definition createTransactionFallback ::
  "jsstring \<Rightarrow> jsstring \<Rightarrow> TransactionCreateInput \<Rightarrow> fallbackStore
     \<Rightarrow> Transaction \<times> fallbackStore" where
  "createTransactionFallback uuid now input s =
     (let transaction = \<lparr>tx_id = uuid, tx_date = tci_date input, tx_type = tci_type input,
            tx_description = tci_description input, tx_amount = tci_amount input,
            tx_approved = tci_approved input, tx_createdBy = tci_createdBy input,
            tx_createdAt = Some now\<rparr>
      in (transaction,
          s\<lparr>transactions := mapSet (tx_id transaction) transaction (transactions s)\<rparr>))"

definition createTransaction ::
  "jsstring \<Rightarrow> jsstring \<Rightarrow> TransactionCreateInput \<Rightarrow> fallbackStore
     \<Rightarrow> Transaction \<times> fallbackStore" where
  "createTransaction uuid now input s = createTransactionFallback uuid now input s"

definition approveTransaction ::
  "jsstring \<Rightarrow> fallbackStore \<Rightarrow> (error + Transaction) \<times> fallbackStore" where
  "approveTransaction id' s =
     (case mapGet id' (transactions s) of
        None \<Rightarrow> (Inl TransactionNotFound, s)
      | Some existing \<Rightarrow>
          (let updated = existing\<lparr>tx_approved := True\<rparr>
           in (Inr updated, s\<lparr>transactions := mapSet id' updated (transactions s)\<rparr>)))"

definition deleteTransaction ::
  "jsstring \<Rightarrow> fallbackStore \<Rightarrow> (error + unit) \<times> fallbackStore" where
  "deleteTransaction id' s =
     (let (found, m) = mapDelete id' (transactions s);
          s1 = s\<lparr>transactions := m\<rparr>
      in if \<not> found then (Inl TransactionNotFound, s1) else (Inr (), s1))"

section \<open>Inventory\<close>

definition createInventoryItem ::
  "jsstring \<Rightarrow> InventoryItemCreateInput \<Rightarrow> fallbackStore \<Rightarrow> InventoryItem \<times> fallbackStore" where
  "createInventoryItem uuid input s =
     (let item = \<lparr>item_id = uuid, item_name = ici_name input,
            item_updatedAt = ici_updatedAt input, item_quantity = ici_quantity input,
            item_unit = ici_unit input, item_min = ici_min input\<rparr>
      in (item, s\<lparr>items := mapSet (item_id item) item (items s)\<rparr>))"

text \<open>The loop of \<^verbatim>\<open>deleteInventoryItem\<close> walks the live iterator of
  \<^verbatim>\<open>fallbackStore.movements.values()\<close> while it deletes from the same map: an entry
  deleted before the iterator reaches it is not visited. \<open>pending\<close> holds the entries the
  iterator has still to visit.\<close>

function deleteMovementsOf ::
  "jsstring \<Rightarrow> Movement jsmap \<Rightarrow> Movement jsmap \<Rightarrow> Movement jsmap" where
  "deleteMovementsOf id' [] m = m"
| "deleteMovementsOf id' ((k, movement) # pending) m =
     (if mv_itemId movement = id'
      then deleteMovementsOf id' (AList.delete (mv_id movement) pending)
             (snd (mapDelete (mv_id movement) m))
      else deleteMovementsOf id' pending m)"
  by pat_completeness auto
termination
  by (relation "measure (\<lambda>(id', pending, m). length pending)")
     (auto simp: length_delete_le less_Suc_eq_le)

definition deleteInventoryItem ::
  "jsstring \<Rightarrow> fallbackStore \<Rightarrow> (error + unit) \<times> fallbackStore" where
  "deleteInventoryItem id' s =
     (let s1 = s\<lparr>items := snd (mapDelete id' (items s))\<rparr>;
          s2 = s1\<lparr>movements := deleteMovementsOf id' (movements s1) (movements s1)\<rparr>
      in (Inr (), s2))"

text \<open>The template literals of the two descriptions, code unit by code unit;
  \<open>numberToString\<close> renders \<^verbatim>\<open>${input.qty}\<close> and \<^verbatim>\<open>${input.unitPrice}\<close>.\<close>

definition receiptDescription ::
  "(real \<Rightarrow> jsstring) \<Rightarrow> InventoryItem \<Rightarrow> InventoryReceiptInput \<Rightarrow> jsstring" where
  "receiptDescription numberToString item input =
     [0x634, 0x631, 0x627, 0x621, 0x20] @ item_name item @ [0x20, 0x645, 0x646, 0x20]
       @ rcp_supplier input @ [0x20, 0x28] @ numberToString (rcp_qty input) @ [0x20]
       @ item_unit item @ [0x20, 0xD7, 0x20] @ numberToString (rcp_unitPrice input) @ [0x29]"

definition issueDescription ::
  "(real \<Rightarrow> jsstring) \<Rightarrow> InventoryItem \<Rightarrow> InventoryIssueInput \<Rightarrow> jsstring" where
  "issueDescription numberToString item input =
     [0x635, 0x631, 0x641, 0x20] @ item_name item
       @ [0x20, 0x644, 0x645, 0x634, 0x631, 0x648, 0x639, 0x20]
       @ iss_project input @ [0x20, 0x28] @ numberToString (iss_qty input) @ [0x20]
       @ item_unit item @ [0x20, 0xD7, 0x20] @ numberToString (iss_unitPrice input) @ [0x29]"

text \<open>\<^verbatim>\<open>recordInventoryReceipt\<close>: \<open>uuid1\<close> is the movement's id, \<open>uuid2\<close> the
  transaction's.\<close>

definition recordInventoryReceipt ::
  "(real \<Rightarrow> jsstring) \<Rightarrow> jsstring \<Rightarrow> jsstring \<Rightarrow> jsstring \<Rightarrow> InventoryReceiptInput
     \<Rightarrow> fallbackStore \<Rightarrow> (error + InventoryMovementResult) \<times> fallbackStore" where
  "recordInventoryReceipt numberToString uuid1 uuid2 now input s =
     (case mapGet (rcp_itemId input) (items s) of
        None \<Rightarrow> (Inl InventoryItemNotFound, s)
      | Some item \<Rightarrow>
          (let updated = item\<lparr>item_quantity := item_quantity item + rcp_qty input,
                             item_updatedAt := rcp_date input\<rparr>;
               s1 = s\<lparr>items := mapSet (item_id updated) updated (items s)\<rparr>;
               movement = \<lparr>mv_id = uuid1, mv_itemId = rcp_itemId input, mv_kind = In,
                  mv_qty = rcp_qty input, mv_unitPrice = rcp_unitPrice input,
                  mv_total = rcp_qty input * rcp_unitPrice input,
                  mv_party = rcp_supplier input, mv_date = rcp_date input\<rparr>;
               s2 = s1\<lparr>movements := mapSet (mv_id movement) movement (movements s1)\<rparr>;
               (transaction, s3) = createTransactionFallback uuid2 now
                  \<lparr>tci_date = rcp_date input, tci_type = Expense,
                   tci_description = receiptDescription numberToString item input,
                   tci_amount = mv_total movement, tci_approved = rcp_approved input,
                   tci_createdBy = rcp_createdBy input\<rparr> s2
           in (Inr \<lparr>res_item = updated, res_movement = movement,
                     res_transaction = transaction\<rparr>, s3)))"

text \<open>\<^verbatim>\<open>recordInventoryIssue\<close>: the same shape, with the quantity floored at zero.\<close>

definition recordInventoryIssue ::
  "(real \<Rightarrow> jsstring) \<Rightarrow> jsstring \<Rightarrow> jsstring \<Rightarrow> jsstring \<Rightarrow> InventoryIssueInput
     \<Rightarrow> fallbackStore \<Rightarrow> (error + InventoryMovementResult) \<times> fallbackStore" where
  "recordInventoryIssue numberToString uuid1 uuid2 now input s =
     (case mapGet (iss_itemId input) (items s) of
        None \<Rightarrow> (Inl InventoryItemNotFound, s)
      | Some item \<Rightarrow>
          (let nextQuantity = max 0 (item_quantity item - iss_qty input);
               updated = item\<lparr>item_quantity := nextQuantity,
                             item_updatedAt := iss_date input\<rparr>;
               s1 = s\<lparr>items := mapSet (item_id updated) updated (items s)\<rparr>;
               movement = \<lparr>mv_id = uuid1, mv_itemId = iss_itemId input, mv_kind = Out,
                  mv_qty = iss_qty input, mv_unitPrice = iss_unitPrice input,
                  mv_total = iss_qty input * iss_unitPrice input,
                  mv_party = iss_project input, mv_date = iss_date input\<rparr>;
               s2 = s1\<lparr>movements := mapSet (mv_id movement) movement (movements s1)\<rparr>;
               (transaction, s3) = createTransactionFallback uuid2 now
                  \<lparr>tci_date = iss_date input, tci_type = Expense,
                   tci_description = issueDescription numberToString item input,
                   tci_amount = mv_total movement, tci_approved = iss_approved input,
                   tci_createdBy = iss_createdBy input\<rparr> s2
           in (Inr \<lparr>res_item = updated, res_movement = movement,
                     res_transaction = transaction\<rparr>, s3)))"

section \<open>Projects\<close>

definition createProject ::
  "jsstring \<Rightarrow> ProjectCreateInput \<Rightarrow> fallbackStore \<Rightarrow> Project \<times> fallbackStore" where
  "createProject uuid input s =
     (let project = \<lparr>prj_id = uuid, prj_name = pci_name input,
            prj_location = pci_location input, prj_floors = pci_floors input,
            prj_units = pci_units input, prj_createdAt = pci_createdAt input\<rparr>
      in (project, s\<lparr>projects := mapSet (prj_id project) project (projects s)\<rparr>))"

definition getProjectById :: "jsstring \<Rightarrow> fallbackStore \<Rightarrow> Project option" where
  "getProjectById id' s = mapGet id' (projects s)"

text \<open>The two loops of \<^verbatim>\<open>deleteProject\<close> run over a copy of the values
  (\<^verbatim>\<open>[...fallbackStore.costs.values()]\<close>) and delete by the record's own id.\<close>

definition deleteCostsOf :: "jsstring \<Rightarrow> ProjectCost jsmap \<Rightarrow> ProjectCost jsmap" where
  "deleteCostsOf id' m =
     foldl (\<lambda>acc cost. if cost_projectId cost = id'
                         then snd (mapDelete (cost_id cost) acc) else acc)
       m (mapValues m)"

definition deleteSalesOf :: "jsstring \<Rightarrow> ProjectSale jsmap \<Rightarrow> ProjectSale jsmap" where
  "deleteSalesOf id' m =
     foldl (\<lambda>acc sale. if sale_projectId sale = id'
                         then snd (mapDelete (sale_id sale) acc) else acc)
       m (mapValues m)"

definition deleteProject ::
  "jsstring \<Rightarrow> fallbackStore \<Rightarrow> (error + unit) \<times> fallbackStore" where
  "deleteProject id' s =
     (let (found, m) = mapDelete id' (projects s);
          s1 = s\<lparr>projects := m\<rparr>
      in if \<not> found then (Inl ProjectNotFound, s1)
         else (let s2 = s1\<lparr>costs := deleteCostsOf id' (costs s1)\<rparr>;
                   s3 = s2\<lparr>sales := deleteSalesOf id' (sales s2)\<rparr>
               in (Inr (), s3)))"

fun projectCostTypeLabel :: "CostType \<Rightarrow> jsstring" where
  "projectCostTypeLabel Construction = [0x625, 0x646, 0x634, 0x627, 0x621]"
| "projectCostTypeLabel Operation = [0x62A, 0x634, 0x63A, 0x64A, 0x644]"
| "projectCostTypeLabel ExpenseCost = [0x645, 0x635, 0x631, 0x648, 0x641, 0x627, 0x62A]"

definition costDescription :: "ProjectCostCreateInput \<Rightarrow> jsstring" where
  "costDescription input =
     [0x62A, 0x643, 0x644, 0x641, 0x629, 0x20] @ projectCostTypeLabel (pcc_type input)
       @ [0x20, 0x644, 0x645, 0x634, 0x631, 0x648, 0x639, 0x20] @ pcc_projectName input"

definition saleDescription :: "ProjectSaleCreateInput \<Rightarrow> jsstring" where
  "saleDescription input =
     [0x628, 0x64A, 0x639, 0x20, 0x648, 0x62D, 0x62F, 0x629, 0x20] @ psc_unitNo input
       @ [0x20, 0x645, 0x646, 0x20, 0x645, 0x634, 0x631, 0x648, 0x639, 0x20]
       @ psc_projectName input @ [0x20, 0x625, 0x644, 0x649, 0x20] @ psc_buyer input"

text \<open>\<^verbatim>\<open>createProjectCost\<close> and \<^verbatim>\<open>createProjectSale\<close>: \<open>uuid1\<close> is the id of the cost
  or sale, \<open>uuid2\<close> the transaction's.\<close>

definition createProjectCost ::
  "jsstring \<Rightarrow> jsstring \<Rightarrow> jsstring \<Rightarrow> ProjectCostCreateInput \<Rightarrow> fallbackStore
     \<Rightarrow> ProjectCostCreateResult \<times> fallbackStore" where
  "createProjectCost uuid1 uuid2 now input s =
     (let cost = \<lparr>cost_id = uuid1, cost_projectId = pcc_projectId input,
            cost_type = pcc_type input, cost_amount = pcc_amount input,
            cost_date = pcc_date input, cost_note = pcc_note input\<rparr>;
          s1 = s\<lparr>costs := mapSet (cost_id cost) cost (costs s)\<rparr>;
          (transaction, s2) = createTransactionFallback uuid2 now
             \<lparr>tci_date = pcc_date input, tci_type = Expense,
              tci_description = costDescription input, tci_amount = pcc_amount input,
              tci_approved = pcc_approved input, tci_createdBy = pcc_createdBy input\<rparr> s1
      in (\<lparr>pcr_cost = cost, pcr_transaction = transaction\<rparr>, s2))"

definition createProjectSale ::
  "jsstring \<Rightarrow> jsstring \<Rightarrow> jsstring \<Rightarrow> ProjectSaleCreateInput \<Rightarrow> fallbackStore
     \<Rightarrow> ProjectSaleCreateResult \<times> fallbackStore" where
  "createProjectSale uuid1 uuid2 now input s =
     (let sale = \<lparr>sale_id = uuid1, sale_projectId = psc_projectId input,
            sale_unitNo = psc_unitNo input, sale_buyer = psc_buyer input,
            sale_price = psc_price input, sale_date = psc_date input,
            sale_terms = psc_terms input, sale_area = None, sale_paymentMethod = None\<rparr>;
          s1 = s\<lparr>sales := mapSet (sale_id sale) sale (sales s)\<rparr>;
          (transaction, s2) = createTransactionFallback uuid2 now
             \<lparr>tci_date = psc_date input, tci_type = Revenue,
              tci_description = saleDescription input, tci_amount = psc_price input,
              tci_approved = psc_approved input, tci_createdBy = psc_createdBy input\<rparr> s1
      in (\<lparr>psr_sale = sale, psr_transaction = transaction\<rparr>, s2))"

section \<open>Sorting and the snapshot\<close>

text \<open>\<^verbatim>\<open>Array.prototype.sort\<close> is stable, and every comparator below is consistent (it
  compares keys of a linear order), so every stable sorting algorithm returns the same
  list. The one written out inserts the elements from the right, each before the first
  element it does not follow.\<close>

fun insertBefore :: "('a \<Rightarrow> 'a \<Rightarrow> int) \<Rightarrow> 'a \<Rightarrow> 'a list \<Rightarrow> 'a list" where
  "insertBefore cmp x [] = [x]"
| "insertBefore cmp x (y # ys) =
     (if cmp x y \<le> 0 then x # y # ys else y # insertBefore cmp x ys)"

definition jsSort :: "('a \<Rightarrow> 'a \<Rightarrow> int) \<Rightarrow> 'a list \<Rightarrow> 'a list" where
  "jsSort cmp xs = foldr (insertBefore cmp) xs []"

text \<open>The comparator \<^verbatim>\<open>a === b ? 0 : a > b ? -1 : 1\<close> on two strings.\<close>

definition compareDesc :: "jsstring \<Rightarrow> jsstring \<Rightarrow> int" where
  "compareDesc a b = (if a = b then 0 else if a > b then - 1 else 1)"

definition sortByDateDesc :: "('a \<Rightarrow> jsstring) \<Rightarrow> 'a list \<Rightarrow> 'a list" where
  "sortByDateDesc date xs = jsSort (\<lambda>a b. compareDesc (date a) (date b)) xs"

definition createdAtOrEmpty :: "Transaction \<Rightarrow> jsstring" where
  "createdAtOrEmpty a = (case tx_createdAt a of None \<Rightarrow> [] | Some c \<Rightarrow> c)"

definition compareTransactions :: "Transaction \<Rightarrow> Transaction \<Rightarrow> int" where
  "compareTransactions a b =
     (if tx_date a = tx_date b
      then (let ca = createdAtOrEmpty a; cb = createdAtOrEmpty b
            in if ca = cb then 0 else if ca > cb then - 1 else 1)
      else if tx_date a > tx_date b then - 1 else 1)"

definition sortTransactions :: "Transaction list \<Rightarrow> Transaction list" where
  "sortTransactions xs = jsSort compareTransactions xs"

definition sortTransactionsFallback :: "('a \<Rightarrow> jsstring) \<Rightarrow> 'a list \<Rightarrow> 'a list" where
  "sortTransactionsFallback date xs = sortByDateDesc date xs"

definition sortTransactionsFallbackMovements :: "Movement list \<Rightarrow> Movement list" where
  "sortTransactionsFallbackMovements xs =
     jsSort (\<lambda>a b. compareDesc (mv_date a) (mv_date b)) xs"

definition getFallbackSnapshot :: "fallbackStore \<Rightarrow> AccountingSnapshot" where
  "getFallbackSnapshot s =
     \<lparr>snap_transactions = sortTransactions (mapValues (transactions s)),
      snap_items = jsSort (\<lambda>a b. compareDesc (item_updatedAt a) (item_updatedAt b))
         (mapValues (items s)),
      snap_movements = sortTransactionsFallbackMovements (mapValues (movements s)),
      snap_projects = jsSort (\<lambda>a b. compareDesc (prj_createdAt a) (prj_createdAt b))
         (mapValues (projects s)),
      snap_costs = sortTransactionsFallback cost_date (mapValues (costs s)),
      snap_sales = sortTransactionsFallback sale_date (mapValues (sales s))\<rparr>"

definition getAccountingSnapshot :: "fallbackStore \<Rightarrow> AccountingSnapshot" where
  "getAccountingSnapshot s = getFallbackSnapshot s"

definition getProjectSnapshot :: "jsstring \<Rightarrow> fallbackStore \<Rightarrow> ProjectSnapshot option" where
  "getProjectSnapshot id' s =
     (case getProjectById id' s of
        None \<Rightarrow> None
      | Some project \<Rightarrow>
          (let costs' = jsSort (\<lambda>a b. compareDesc (cost_date a) (cost_date b))
                 (filter (\<lambda>c. cost_projectId c = id') (mapValues (costs s)));
               sales' = jsSort (\<lambda>a b. compareDesc (sale_date a) (sale_date b))
                 (filter (\<lambda>x. sale_projectId x = id') (mapValues (sales s)))
           in Some \<lparr>ps_project = project, ps_costs = costs', ps_sales = sales'\<rparr>))"

section \<open>Sequences of store operations\<close>

text \<open>One constructor for each exported function that writes to the store, with the
  values the call receives from its caller and from the runtime. A call that throws
  leaves the store as the function left it, and the next call runs on that store.\<close>

datatype storeOp =
    CreateTransaction jsstring jsstring TransactionCreateInput
  | ApproveTransaction jsstring
  | DeleteTransaction jsstring
  | CreateInventoryItem jsstring InventoryItemCreateInput
  | DeleteInventoryItem jsstring
  | RecordInventoryReceipt jsstring jsstring jsstring InventoryReceiptInput
  | RecordInventoryIssue jsstring jsstring jsstring InventoryIssueInput
  | CreateProject jsstring ProjectCreateInput
  | DeleteProject jsstring
  | CreateProjectCost jsstring jsstring jsstring ProjectCostCreateInput
  | CreateProjectSale jsstring jsstring jsstring ProjectSaleCreateInput

fun applyOp :: "(real \<Rightarrow> jsstring) \<Rightarrow> storeOp \<Rightarrow> fallbackStore \<Rightarrow> fallbackStore" where
  "applyOp f (CreateTransaction uuid now input) s = snd (createTransaction uuid now input s)"
| "applyOp f (ApproveTransaction id') s = snd (approveTransaction id' s)"
| "applyOp f (DeleteTransaction id') s = snd (deleteTransaction id' s)"
| "applyOp f (CreateInventoryItem uuid input) s = snd (createInventoryItem uuid input s)"
| "applyOp f (DeleteInventoryItem id') s = snd (deleteInventoryItem id' s)"
| "applyOp f (RecordInventoryReceipt uuid1 uuid2 now input) s =
     snd (recordInventoryReceipt f uuid1 uuid2 now input s)"
| "applyOp f (RecordInventoryIssue uuid1 uuid2 now input) s =
     snd (recordInventoryIssue f uuid1 uuid2 now input s)"
| "applyOp f (CreateProject uuid input) s = snd (createProject uuid input s)"
| "applyOp f (DeleteProject id') s = snd (deleteProject id' s)"
| "applyOp f (CreateProjectCost uuid1 uuid2 now input) s =
     snd (createProjectCost uuid1 uuid2 now input s)"
| "applyOp f (CreateProjectSale uuid1 uuid2 now input) s =
     snd (createProjectSale uuid1 uuid2 now input s)"

definition runOps :: "(real \<Rightarrow> jsstring) \<Rightarrow> storeOp list \<Rightarrow> fallbackStore \<Rightarrow> fallbackStore" where
  "runOps f ops s = foldl (\<lambda>acc op. applyOp f op acc) s ops"

text \<open>The inputs the HTTP layer lets through to the inventory: an item is created with
  a quantity that is not negative, a receipt or an issue has a positive quantity.\<close>

fun validOp :: "storeOp \<Rightarrow> bool" where
  "validOp (CreateInventoryItem uuid input) = (0 \<le> ici_quantity input)"
| "validOp (RecordInventoryReceipt uuid1 uuid2 now input) = (0 < rcp_qty input)"
| "validOp (RecordInventoryIssue uuid1 uuid2 now input) = (0 < iss_qty input)"
| "validOp _ = True"

text \<open>What the \<^verbatim>\<open>Map\<close>s of the store guarantee and every write keeps: a key occurs once,
  and a record is stored under its own id.\<close>

definition keyed :: "('v \<Rightarrow> jsstring) \<Rightarrow> 'v jsmap \<Rightarrow> bool" where
  "keyed ident m = (distinct (map fst m) \<and> list_all (\<lambda>(k, v). ident v = k) m)"

definition storeInv :: "fallbackStore \<Rightarrow> bool" where
  "storeInv s = (keyed tx_id (transactions s) \<and> keyed item_id (items s)
     \<and> keyed mv_id (movements s) \<and> keyed prj_id (projects s)
     \<and> keyed cost_id (costs s) \<and> keyed sale_id (sales s))"

definition stockNonneg :: "fallbackStore \<Rightarrow> bool" where
  "stockNonneg s = (\<forall>item \<in> set (mapValues (items s)). 0 \<le> item_quantity item)"

section \<open>Example data\<close>

text \<open>The examples of the specification: an item "Cement" with 20 in stock, a receipt of
  10 at unit price 5 from "Acme", an issue of 25, and three ledger entries dated
  2024-01-01, 2024-03-01 and 2024-02-01.\<close>

definition exampleNumberToString :: "real \<Rightarrow> jsstring" where
  "exampleNumberToString x =
     (if x = 5 then ascii ''5'' else if x = 10 then ascii ''10''
      else if x = 25 then ascii ''25'' else ascii ''0'')"

definition cement :: InventoryItem where
  "cement = \<lparr>item_id = ascii ''item-1'', item_name = ascii ''Cement'',
     item_updatedAt = ascii ''2024-01-01'', item_quantity = 20,
     item_unit = ascii ''bag'', item_min = 5\<rparr>"

definition cementStore :: fallbackStore where
  "cementStore = emptyStore\<lparr>items := [(ascii ''item-1'', cement)]\<rparr>"

definition cementReceipt :: InventoryReceiptInput where
  "cementReceipt = \<lparr>rcp_itemId = ascii ''item-1'', rcp_qty = 10, rcp_unitPrice = 5,
     rcp_supplier = ascii ''Acme'', rcp_date = ascii ''2024-02-01'', rcp_approved = True,
     rcp_createdBy = Some (ascii ''user-1'')\<rparr>"

definition cementIssue :: InventoryIssueInput where
  "cementIssue = \<lparr>iss_itemId = ascii ''item-1'', iss_qty = 25, iss_unitPrice = 5,
     iss_project = ascii ''Tower'', iss_date = ascii ''2024-02-02'', iss_approved = False,
     iss_createdBy = None\<rparr>"

definition cementCreate :: InventoryItemCreateInput where
  "cementCreate = \<lparr>ici_name = ascii ''Cement'', ici_quantity = 20, ici_unit = ascii ''bag'',
     ici_min = 5, ici_updatedAt = ascii ''2024-01-01''\<rparr>"

definition exampleOps :: "storeOp list" where
  "exampleOps =
     [CreateInventoryItem (ascii ''item-1'') cementCreate,
      RecordInventoryIssue (ascii ''mv-1'') (ascii ''tx-1'') (ascii ''2024-02-02T08:00:00.000Z'')
        cementIssue,
      RecordInventoryReceipt (ascii ''mv-2'') (ascii ''tx-2'') (ascii ''2024-02-03T08:00:00.000Z'')
        cementReceipt,
      DeleteInventoryItem (ascii ''item-9'')]"

definition ledgerEntry :: "string \<Rightarrow> string \<Rightarrow> string \<Rightarrow> Transaction" where
  "ledgerEntry i d c = \<lparr>tx_id = ascii i, tx_date = ascii d, tx_type = Revenue,
     tx_description = ascii ''rent'', tx_amount = 100, tx_approved = False,
     tx_createdBy = None, tx_createdAt = Some (ascii c)\<rparr>"

definition ledgerStore :: fallbackStore where
  "ledgerStore = emptyStore\<lparr>transactions :=
     [(ascii ''a'', ledgerEntry ''a'' ''2024-01-01'' ''2024-04-01T08:00:00.000Z''),
      (ascii ''b'', ledgerEntry ''b'' ''2024-03-01'' ''2024-04-01T08:00:01.000Z''),
      (ascii ''c'', ledgerEntry ''c'' ''2024-02-01'' ''2024-04-01T08:00:02.000Z'')]\<rparr>"

text \<open>Three ledger entries of one date, stored in ascending order of creation (the
  first without a creation timestamp), and one entry of an earlier date.\<close>

definition tieStore :: fallbackStore where
  "tieStore = emptyStore\<lparr>transactions :=
     [(ascii ''d'', (ledgerEntry ''d'' ''2024-03-01'' [])\<lparr>tx_createdAt := None\<rparr>),
      (ascii ''a'', ledgerEntry ''a'' ''2024-03-01'' ''2024-04-01T08:00:00.000Z''),
      (ascii ''b'', ledgerEntry ''b'' ''2024-03-01'' ''2024-04-01T08:00:05.000Z''),
      (ascii ''c'', ledgerEntry ''c'' ''2024-01-01'' ''2024-04-01T08:00:09.000Z'')]\<rparr>"

definition towerCost :: "string \<Rightarrow> string \<Rightarrow> ProjectCost" where
  "towerCost i p = \<lparr>cost_id = ascii i, cost_projectId = ascii p, cost_type = Construction,
     cost_amount = 1000, cost_date = ascii ''2024-01-05'', cost_note = []\<rparr>"

definition towerSale :: ProjectSale where
  "towerSale = \<lparr>sale_id = ascii ''s1'', sale_projectId = ascii ''p1'',
     sale_unitNo = ascii ''A-1'', sale_buyer = ascii ''Sami'', sale_price = 5000,
     sale_date = ascii ''2024-01-06'', sale_terms = None, sale_area = None,
     sale_paymentMethod = None\<rparr>"

definition towerStore :: fallbackStore where
  "towerStore = emptyStore\<lparr>
     projects := [(ascii ''p1'', \<lparr>prj_id = ascii ''p1'', prj_name = ascii ''Tower'',
        prj_location = ascii ''Cairo'', prj_floors = 10, prj_units = 40,
        prj_createdAt = ascii ''2024-01-01''\<rparr>)],
     costs := [(ascii ''c1'', towerCost ''c1'' ''p1''), (ascii ''c2'', towerCost ''c2'' ''p2'')],
     sales := [(ascii ''s1'', towerSale)]\<rparr>"

definition towerCostInput :: ProjectCostCreateInput where
  "towerCostInput = \<lparr>pcc_projectId = ascii ''p1'', pcc_projectName = ascii ''Tower'',
     pcc_type = Operation, pcc_amount = 750, pcc_date = ascii ''2024-02-01'',
     pcc_note = ascii ''crane'', pcc_approved = True, pcc_createdBy = None\<rparr>"

definition towerSaleInput :: ProjectSaleCreateInput where
  "towerSaleInput = \<lparr>psc_projectId = ascii ''p1'', psc_projectName = ascii ''Tower'',
     psc_unitNo = ascii ''A-2'', psc_buyer = ascii ''Mona'', psc_price = 6000,
     psc_date = ascii ''2024-02-02'', psc_terms = None, psc_area = None,
     psc_paymentMethod = None, psc_approved = False, psc_createdBy = None\<rparr>"

section \<open>Properties of the Map operations\<close>

lemma mapGet_mapSet: "mapGet k (mapSet k' v m) = (if k = k' then Some v else mapGet k m)"
  by (simp add: mapGet_def mapSet_def update_conv')

lemma mapValues_mapSet_fresh:
  "mapGet k m = None \<Longrightarrow> mapValues (mapSet k v m) = mapValues m @ [v]"
  by (induction m) (auto simp: mapGet_def mapSet_def mapValues_def)

lemma mapSet_idem: "mapSet k v (mapSet k v m) = mapSet k v m"
  by (induction m) (auto simp: mapSet_def)

lemma mapDelete_absent: "mapGet k m = None \<Longrightarrow> mapDelete k m = (False, m)"
  by (simp add: mapGet_def mapDelete_def map_of_eq_None_iff)

lemma mapDelete_present: "mapGet k m = Some v \<Longrightarrow> fst (mapDelete k m) = True"
  by (auto simp: mapGet_def mapDelete_def dest: map_of_SomeD intro: rev_image_eqI)

lemma mapGet_mapDelete: "mapGet k (snd (mapDelete k' m)) = (if k = k' then None else mapGet k m)"
  by (simp add: mapGet_def mapDelete_def delete_conv')

lemma set_mapValues_mapSet: "set (mapValues (mapSet k v m)) \<subseteq> insert v (set (mapValues m))"
  unfolding mapValues_def mapSet_def
  by (induction m) auto

lemma set_mapValues_mapDelete: "set (mapValues (snd (mapDelete k m))) \<subseteq> set (mapValues m)"
  unfolding mapValues_def mapDelete_def
  by (induction m) auto

lemma mapGet_in_mapValues: "mapGet k m = Some v \<Longrightarrow> v \<in> set (mapValues m)"
  unfolding mapValues_def mapGet_def
  by (auto dest!: map_of_SomeD intro: rev_image_eqI)

lemma mapValues_filter_snd:
  "mapValues (filter (\<lambda>e. Q (snd e)) m) = filter Q (mapValues m)"
  unfolding mapValues_def by (induction m) auto

section \<open>Every write keeps the store well keyed\<close>

lemma list_all_update:
  "list_all (\<lambda>(k, v). ident v = k) m \<Longrightarrow> ident v = k \<Longrightarrow>
     list_all (\<lambda>(k, v). ident v = k) (AList.update k v m)"
  by (induction m) auto

lemma keyed_mapSet: "keyed ident m \<Longrightarrow> ident v = k \<Longrightarrow> keyed ident (mapSet k v m)"
  unfolding keyed_def mapSet_def
  by (simp add: distinct_update list_all_update)

lemma keyed_delete: "keyed ident m \<Longrightarrow> keyed ident (AList.delete k m)"
  unfolding keyed_def
  by (induction m) (auto simp: distinct_delete delete_keys)

lemma keyed_mapDelete: "keyed ident m \<Longrightarrow> keyed ident (snd (mapDelete k m))"
  by (simp add: mapDelete_def keyed_delete)

lemma keyed_mapGet: "keyed ident m \<Longrightarrow> mapGet k m = Some v \<Longrightarrow> ident v = k"
  unfolding keyed_def mapGet_def
  by (auto simp: list_all_iff dest: map_of_SomeD)

lemma keyed_deleteMovementsOf:
  "keyed mv_id m \<Longrightarrow> keyed mv_id (deleteMovementsOf id' pending m)"
  by (induction id' pending m rule: deleteMovementsOf.induct)
     (auto simp: keyed_mapDelete)

lemma foldl_delete_keyed:
  "keyed ident m \<Longrightarrow>
     keyed ident (foldl (\<lambda>acc v. if P v then snd (mapDelete (ident v) acc) else acc) m vs)"
  by (induction vs arbitrary: m) (auto simp: keyed_mapDelete)

lemma storeInv_applyOp: "storeInv s \<Longrightarrow> storeInv (applyOp f op s)"
  by (cases op)
     (auto simp: storeInv_def createTransaction_def createTransactionFallback_def
       approveTransaction_def deleteTransaction_def createInventoryItem_def
       deleteInventoryItem_def recordInventoryReceipt_def recordInventoryIssue_def
       createProject_def deleteProject_def createProjectCost_def createProjectSale_def
       deleteCostsOf_def deleteSalesOf_def
       Let_def keyed_mapSet keyed_mapDelete keyed_deleteMovementsOf foldl_delete_keyed
       keyed_mapGet case_prod_unfold
       split: option.splits)

lemma storeInv_emptyStore: "storeInv emptyStore"
  by (simp add: storeInv_def emptyStore_def keyed_def)

lemma storeInv_runOps: "storeInv s \<Longrightarrow> storeInv (runOps f ops s)"
  unfolding runOps_def
  by (induction ops arbitrary: s) (simp_all add: storeInv_applyOp)

section \<open>Inventory receipts and issues\<close>



text \<open>
  C2. An issue from an item that exists, with a positive quantity and a positive unit
  price, returns the item with quantity \<open>max 0 (previous - qty)\<close>: it is never negative,
  and it is 0 when more is issued than there is.
\<close>

theorem recordInventoryIssue_clamps:
  assumes "mapGet (iss_itemId input) (items s) = Some item"
    and "0 < iss_qty input" and "0 < iss_unitPrice input"
  shows "\<exists>r s'. recordInventoryIssue f uuid1 uuid2 now input s = (Inr r, s')
     \<and> item_quantity (res_item r) = max 0 (item_quantity item - iss_qty input)
     \<and> 0 \<le> item_quantity (res_item r)
     \<and> (item_quantity item < iss_qty input \<longrightarrow> item_quantity (res_item r) = 0)
     \<and> mapGet (item_id item) (items s') = Some (res_item r)"
  using assms
  by (simp add: recordInventoryIssue_def createTransactionFallback_def Let_def
      mapGet_mapSet)

text \<open>The example of the specification: 25 issued from 20 leaves 0.\<close>

theorem recordInventoryIssue_clamps_witness:
  "\<exists>r s'. recordInventoryIssue exampleNumberToString (ascii ''mv-1'') (ascii ''tx-1'')
       (ascii ''2024-02-02T08:00:00.000Z'') cementIssue cementStore = (Inr r, s')
     \<and> item_quantity (res_item r) = 0
     \<and> mapGet (ascii ''item-1'') (items s') = Some (res_item r)"
proof -
  have h1: "mapGet (iss_itemId cementIssue) (items cementStore) = Some cement"
    by (simp add: mapGet_def cementIssue_def cementStore_def)
  have h2: "0 < iss_qty cementIssue" and h3: "0 < iss_unitPrice cementIssue"
    by (simp_all add: cementIssue_def)
  from recordInventoryIssue_clamps [OF h1 h2 h3,
      of exampleNumberToString "ascii ''mv-1''" "ascii ''tx-1''"
         "ascii ''2024-02-02T08:00:00.000Z''"]
  obtain r s' where
    "recordInventoryIssue exampleNumberToString (ascii ''mv-1'') (ascii ''tx-1'')
       (ascii ''2024-02-02T08:00:00.000Z'') cementIssue cementStore = (Inr r, s')"
    "item_quantity (res_item r) = max 0 (item_quantity cement - iss_qty cementIssue)"
    "mapGet (item_id cement) (items s') = Some (res_item r)"
    by blast
  then show ?thesis
    by (simp add: cement_def cementIssue_def)
qed

text \<open>
  C10. When an issue asks for more than there is, the movement still records the
  quantity asked for, its total is that quantity times the unit price, and the amount of
  the transaction is that total, while the stock goes to 0.
\<close>

theorem recordInventoryIssue_clamped_full_request:
  assumes "mapGet (iss_itemId input) (items s) = Some item"
    and "item_quantity item < iss_qty input"
  shows "\<exists>r s'. recordInventoryIssue f uuid1 uuid2 now input s = (Inr r, s')
     \<and> item_quantity (res_item r) = 0
     \<and> mv_qty (res_movement r) = iss_qty input
     \<and> mv_total (res_movement r) = iss_qty input * iss_unitPrice input
     \<and> tx_amount (res_transaction r) = iss_qty input * iss_unitPrice input
     \<and> mapGet (mv_id (res_movement r)) (movements s') = Some (res_movement r)
     \<and> mapGet (tx_id (res_transaction r)) (transactions s') = Some (res_transaction r)"
  using assms
  by (simp add: recordInventoryIssue_def createTransactionFallback_def Let_def
      mapGet_mapSet)

theorem recordInventoryIssue_clamped_full_request_witness:
  "item_quantity cement < iss_qty cementIssue
   \<and> (\<exists>r s'. recordInventoryIssue exampleNumberToString (ascii ''mv-1'') (ascii ''tx-1'')
       (ascii ''2024-02-02T08:00:00.000Z'') cementIssue cementStore = (Inr r, s')
     \<and> item_quantity (res_item r) = 0
     \<and> mv_qty (res_movement r) = 25 \<and> mv_total (res_movement r) = 125
     \<and> tx_amount (res_transaction r) = 125)"
proof -
  have h1: "mapGet (iss_itemId cementIssue) (items cementStore) = Some cement"
    by (simp add: mapGet_def cementIssue_def cementStore_def)
  have h2: "item_quantity cement < iss_qty cementIssue"
    by (simp add: cement_def cementIssue_def)
  from recordInventoryIssue_clamped_full_request [OF h1 h2,
      of exampleNumberToString "ascii ''mv-1''" "ascii ''tx-1''"
         "ascii ''2024-02-02T08:00:00.000Z''"]
  obtain r s' where
    "recordInventoryIssue exampleNumberToString (ascii ''mv-1'') (ascii ''tx-1'')
       (ascii ''2024-02-02T08:00:00.000Z'') cementIssue cementStore = (Inr r, s')"
    "item_quantity (res_item r) = 0"
    "mv_qty (res_movement r) = iss_qty cementIssue"
    "mv_total (res_movement r) = iss_qty cementIssue * iss_unitPrice cementIssue"
    "tx_amount (res_transaction r) = iss_qty cementIssue * iss_unitPrice cementIssue"
    by blast
  with h2 show ?thesis
    by (simp add: cementIssue_def)
qed

section \<open>Stock is never negative\<close>

lemma stockNonneg_set:
  "stockNonneg s \<Longrightarrow> 0 \<le> item_quantity v \<Longrightarrow>
     stockNonneg (s\<lparr>items := mapSet k v (items s)\<rparr>)"
  unfolding stockNonneg_def using set_mapValues_mapSet [of k v "items s"] by auto

lemma stockNonneg_delete:
  "stockNonneg s \<Longrightarrow> stockNonneg (s\<lparr>items := snd (mapDelete k (items s))\<rparr>)"
  unfolding stockNonneg_def using set_mapValues_mapDelete [of k "items s"] by auto

lemma stockNonneg_get:
  "stockNonneg s \<Longrightarrow> mapGet k (items s) = Some v \<Longrightarrow> 0 \<le> item_quantity v"
  unfolding stockNonneg_def by (auto dest: mapGet_in_mapValues)

lemma stockNonneg_receipt:
  assumes "stockNonneg s" "0 < rcp_qty input"
  shows "stockNonneg (snd (recordInventoryReceipt f uuid1 uuid2 now input s))"
proof (cases "mapGet (rcp_itemId input) (items s)")
  case None
  then show ?thesis using assms by (simp add: recordInventoryReceipt_def)
next
  case (Some item)
  let ?u = "item\<lparr>item_quantity := item_quantity item + rcp_qty input,
                   item_updatedAt := rcp_date input\<rparr>"
  have q: "0 \<le> item_quantity ?u"
    using stockNonneg_get [OF assms(1) Some] assms(2) by simp
  have "items (snd (recordInventoryReceipt f uuid1 uuid2 now input s))
      = mapSet (item_id item) ?u (items s)"
    using Some by (simp add: recordInventoryReceipt_def createTransactionFallback_def Let_def)
  then show ?thesis
    using stockNonneg_set [OF assms(1) q, of "item_id item"]
    by (simp add: stockNonneg_def)
qed

lemma stockNonneg_issue:
  assumes "stockNonneg s"
  shows "stockNonneg (snd (recordInventoryIssue f uuid1 uuid2 now input s))"
proof (cases "mapGet (iss_itemId input) (items s)")
  case None
  then show ?thesis using assms by (simp add: recordInventoryIssue_def)
next
  case (Some item)
  let ?u = "item\<lparr>item_quantity := max 0 (item_quantity item - iss_qty input),
                   item_updatedAt := iss_date input\<rparr>"
  have q: "0 \<le> item_quantity ?u" by simp
  have "items (snd (recordInventoryIssue f uuid1 uuid2 now input s))
      = mapSet (item_id item) ?u (items s)"
    using Some by (simp add: recordInventoryIssue_def createTransactionFallback_def Let_def)
  then show ?thesis
    using stockNonneg_set [OF assms(1) q, of "item_id item"]
    by (simp add: stockNonneg_def)
qed

lemma stockNonneg_applyOp:
  assumes "stockNonneg s" "validOp op"
  shows "stockNonneg (applyOp f op s)"
proof (cases op)
  case (CreateInventoryItem uuid input)
  then show ?thesis
    using assms stockNonneg_set [of s _ uuid]
    by (simp add: createInventoryItem_def Let_def)
next
  case (DeleteInventoryItem id')
  then show ?thesis
    using stockNonneg_delete [OF assms(1), of id']
    by (simp add: deleteInventoryItem_def Let_def stockNonneg_def)
next
  case (RecordInventoryReceipt uuid1 uuid2 now input)
  then show ?thesis using assms by (simp add: stockNonneg_receipt)
next
  case (RecordInventoryIssue uuid1 uuid2 now input)
  then show ?thesis using assms by (simp add: stockNonneg_issue)
qed (use assms in \<open>auto simp: stockNonneg_def createTransaction_def
       createTransactionFallback_def approveTransaction_def deleteTransaction_def
       createProject_def deleteProject_def createProjectCost_def createProjectSale_def
       Let_def case_prod_unfold split: option.splits\<close>)

lemma stockNonneg_runOps:
  "stockNonneg s \<Longrightarrow> \<forall>op \<in> set ops. validOp op \<Longrightarrow> stockNonneg (runOps f ops s)"
  unfolding runOps_def
  by (induction ops arbitrary: s) (simp_all add: stockNonneg_applyOp)

text \<open>
  C3. Starting from the empty store, after any sequence of store operations in which
  every item is created with a quantity that is not negative and every receipt and issue
  has a positive quantity, every item of the store has a quantity that is not negative.
\<close>

theorem stock_never_negative:
  assumes "\<forall>op \<in> set ops. validOp op"
  shows "\<forall>item \<in> set (mapValues (items (runOps f ops emptyStore))). 0 \<le> item_quantity item"
proof -
  have "stockNonneg emptyStore" by (simp add: stockNonneg_def emptyStore_def mapValues_def)
  from stockNonneg_runOps [OF this assms] show ?thesis by (simp add: stockNonneg_def)
qed

theorem stock_never_negative_witness:
  "list_all validOp exampleOps
   \<and> map item_quantity (mapValues (items (runOps exampleNumberToString exampleOps emptyStore)))
       = [10]
   \<and> list_all (\<lambda>item. 0 \<le> item_quantity item)
         (mapValues (items (runOps exampleNumberToString exampleOps emptyStore)))"
proof -
  have h: "\<forall>op \<in> set exampleOps. validOp op"
    by (simp add: exampleOps_def cementCreate_def cementIssue_def cementReceipt_def)
  have run: "map item_quantity
      (mapValues (items (runOps exampleNumberToString exampleOps emptyStore))) = [10]"
    by (simp add: exampleOps_def runOps_def createInventoryItem_def recordInventoryIssue_def
        recordInventoryReceipt_def deleteInventoryItem_def createTransactionFallback_def
        mapGet_def mapSet_def mapDelete_def mapValues_def emptyStore_def Let_def
        cementCreate_def cementIssue_def cementReceipt_def ascii_def)
  from h run stock_never_negative [OF h, of exampleNumberToString] show ?thesis
    by (simp add: list_all_iff)
qed

section \<open>Failure of a receipt or an issue\<close>

text \<open>
  C4. A receipt or an issue fails only when the store holds no item under the given id;
  it then raises "Inventory item not found" and leaves the store exactly as it was: no
  item is changed, no movement and no transaction is written.
\<close>

theorem compound_failure_leaves_store:
  "(mapGet (rcp_itemId rin) (items s) = None \<longrightarrow>
      recordInventoryReceipt f uuid1 uuid2 now rin s = (Inl InventoryItemNotFound, s))
   \<and> (\<forall>e s'. recordInventoryReceipt f uuid1 uuid2 now rin s = (Inl e, s') \<longrightarrow>
         e = InventoryItemNotFound \<and> s' = s \<and> mapGet (rcp_itemId rin) (items s) = None)
   \<and> (mapGet (iss_itemId iin) (items s) = None \<longrightarrow>
      recordInventoryIssue f uuid1 uuid2 now iin s = (Inl InventoryItemNotFound, s))
   \<and> (\<forall>e s'. recordInventoryIssue f uuid1 uuid2 now iin s = (Inl e, s') \<longrightarrow>
         e = InventoryItemNotFound \<and> s' = s \<and> mapGet (iss_itemId iin) (items s) = None)"
  by (auto simp: recordInventoryReceipt_def recordInventoryIssue_def
      createTransactionFallback_def Let_def split: option.splits)

theorem compound_failure_leaves_store_witness:
  "mapGet (ascii ''item-9'') (items cementStore) = None
   \<and> recordInventoryReceipt exampleNumberToString (ascii ''mv-1'') (ascii ''tx-1'')
        (ascii ''2024-02-01T08:00:00.000Z'') (cementReceipt\<lparr>rcp_itemId := ascii ''item-9''\<rparr>)
        cementStore = (Inl InventoryItemNotFound, cementStore)
   \<and> recordInventoryIssue exampleNumberToString (ascii ''mv-1'') (ascii ''tx-1'')
        (ascii ''2024-02-01T08:00:00.000Z'') (cementIssue\<lparr>iss_itemId := ascii ''item-9''\<rparr>)
        cementStore = (Inl InventoryItemNotFound, cementStore)"
proof -
  have h: "mapGet (ascii ''item-9'') (items cementStore) = None"
    by (simp add: mapGet_def cementStore_def ascii_def)
  from h compound_failure_leaves_store
    [of "cementReceipt\<lparr>rcp_itemId := ascii ''item-9''\<rparr>" cementStore
        exampleNumberToString "ascii ''mv-1''" "ascii ''tx-1''"
        "ascii ''2024-02-01T08:00:00.000Z''" "cementIssue\<lparr>iss_itemId := ascii ''item-9''\<rparr>"]
  show ?thesis by simp
qed

section \<open>Project costs and sales\<close>

text \<open>
  C5. \<^verbatim>\<open>createProjectCost\<close> stores the cost and, when the transaction's id is new to the
  store, appends exactly one transaction, of type "expense" and with the cost's amount;
  \<^verbatim>\<open>createProjectSale\<close> stores the sale and appends exactly one transaction, of type
  "revenue" and with the sale's price.
\<close>

theorem project_cost_sale_paired_transaction:
  assumes "mapGet uuid2 (transactions s) = None"
  shows "(\<exists>r s'. createProjectCost uuid1 uuid2 now cost_in s = (r, s')
       \<and> mapGet uuid1 (costs s') = Some (pcr_cost r)
       \<and> cost_amount (pcr_cost r) = pcc_amount cost_in
       \<and> mapValues (transactions s') = mapValues (transactions s) @ [pcr_transaction r]
       \<and> tx_amount (pcr_transaction r) = pcc_amount cost_in
       \<and> tx_type (pcr_transaction r) = Expense)
   \<and> (\<exists>r s'. createProjectSale uuid1 uuid2 now sale_in s = (r, s')
       \<and> mapGet uuid1 (sales s') = Some (psr_sale r)
       \<and> sale_price (psr_sale r) = psc_price sale_in
       \<and> mapValues (transactions s') = mapValues (transactions s) @ [psr_transaction r]
       \<and> tx_amount (psr_transaction r) = psc_price sale_in
       \<and> tx_type (psr_transaction r) = Revenue)"
  using assms
  by (simp add: createProjectCost_def createProjectSale_def createTransactionFallback_def
      Let_def mapGet_mapSet mapValues_mapSet_fresh)

theorem project_cost_sale_paired_transaction_witness:
  "mapGet (ascii ''tx-1'') (transactions towerStore) = None
   \<and> (\<exists>r s'. createProjectCost (ascii ''n1'') (ascii ''tx-1'') (ascii ''2024-02-01T08:00:00.000Z'')
          towerCostInput towerStore = (r, s')
        \<and> mapValues (transactions s') = [pcr_transaction r]
        \<and> tx_amount (pcr_transaction r) = 750 \<and> tx_type (pcr_transaction r) = Expense)
   \<and> (\<exists>r s'. createProjectSale (ascii ''n1'') (ascii ''tx-1'') (ascii ''2024-02-01T08:00:00.000Z'')
          towerSaleInput towerStore = (r, s')
        \<and> mapValues (transactions s') = [psr_transaction r]
        \<and> tx_amount (psr_transaction r) = 6000 \<and> tx_type (psr_transaction r) = Revenue)"
proof -
  have h: "mapGet (ascii ''tx-1'') (transactions towerStore) = None"
    by (simp add: mapGet_def towerStore_def emptyStore_def)
  have e: "mapValues (transactions towerStore) = []"
    by (simp add: mapValues_def towerStore_def emptyStore_def)
  from project_cost_sale_paired_transaction [OF h, where ?uuid1.0 = "ascii ''n1''"
      and now = "ascii ''2024-02-01T08:00:00.000Z''" and cost_in = towerCostInput
      and sale_in = towerSaleInput]
  have "(\<exists>r s'. createProjectCost (ascii ''n1'') (ascii ''tx-1'') (ascii ''2024-02-01T08:00:00.000Z'')
          towerCostInput towerStore = (r, s')
        \<and> mapValues (transactions s') = [pcr_transaction r]
        \<and> tx_amount (pcr_transaction r) = 750 \<and> tx_type (pcr_transaction r) = Expense)"
    and "(\<exists>r s'. createProjectSale (ascii ''n1'') (ascii ''tx-1'') (ascii ''2024-02-01T08:00:00.000Z'')
          towerSaleInput towerStore = (r, s')
        \<and> mapValues (transactions s') = [psr_transaction r]
        \<and> tx_amount (psr_transaction r) = 6000 \<and> tx_type (psr_transaction r) = Revenue)"
    unfolding e by (auto simp: towerCostInput_def towerSaleInput_def)
  with h show ?thesis by blast
qed

section \<open>Approving a transaction\<close>

text \<open>
  C8. \<^verbatim>\<open>approveTransaction\<close> fails with "Transaction not found" and leaves the store as
  it was when no transaction is stored under the id; otherwise it returns and stores the
  transaction with \<^verbatim>\<open>approved\<close> set and every other field as before; and a second call
  returns the same result and the same store as the first.
\<close>

theorem approveTransaction_idempotent:
  "(mapGet id' (transactions s) = None \<longrightarrow>
      approveTransaction id' s = (Inl TransactionNotFound, s))
   \<and> (\<forall>t. mapGet id' (transactions s) = Some t \<longrightarrow>
        fst (approveTransaction id' s) = Inr (t\<lparr>tx_approved := True\<rparr>)
        \<and> mapGet id' (transactions (snd (approveTransaction id' s)))
            = Some (t\<lparr>tx_approved := True\<rparr>))
   \<and> approveTransaction id' (snd (approveTransaction id' s)) = approveTransaction id' s"
  by (auto simp: approveTransaction_def Let_def mapGet_mapSet mapSet_idem
      split: option.splits)

theorem approveTransaction_idempotent_witness:
  "mapGet (ascii ''b'') (transactions ledgerStore)
      = Some (ledgerEntry ''b'' ''2024-03-01'' ''2024-04-01T08:00:01.000Z'')
   \<and> fst (approveTransaction (ascii ''b'') ledgerStore)
      = Inr ((ledgerEntry ''b'' ''2024-03-01'' ''2024-04-01T08:00:01.000Z'')\<lparr>tx_approved := True\<rparr>)
   \<and> approveTransaction (ascii ''b'') (snd (approveTransaction (ascii ''b'') ledgerStore))
      = approveTransaction (ascii ''b'') ledgerStore
   \<and> mapGet (ascii ''z'') (transactions ledgerStore) = None
   \<and> approveTransaction (ascii ''z'') ledgerStore = (Inl TransactionNotFound, ledgerStore)"
proof -
  have h1: "mapGet (ascii ''b'') (transactions ledgerStore)
      = Some (ledgerEntry ''b'' ''2024-03-01'' ''2024-04-01T08:00:01.000Z'')"
    by (simp add: mapGet_def ledgerStore_def ascii_def)
  have h2: "mapGet (ascii ''z'') (transactions ledgerStore) = None"
    by (simp add: mapGet_def ledgerStore_def ascii_def)
  from h1 h2 approveTransaction_idempotent [of "ascii ''b''" ledgerStore]
    approveTransaction_idempotent [of "ascii ''z''" ledgerStore]
  show ?thesis by simp
qed

section \<open>Deleting a transaction or an inventory item\<close>

lemma mapDelete_found: "fst (mapDelete k m) \<longleftrightarrow> mapGet k m \<noteq> None"
  by (simp add: mapDelete_def mapGet_def map_of_eq_None_iff)

lemma deleteTransaction_checked:
  "(mapGet id' (transactions s) = None \<longrightarrow>
      deleteTransaction id' s = (Inl TransactionNotFound, s))
   \<and> (mapGet id' (transactions s) \<noteq> None \<longrightarrow>
      fst (deleteTransaction id' s) = Inr ()
      \<and> mapGet id' (transactions (snd (deleteTransaction id' s))) = None)"
  by (auto simp: deleteTransaction_def mapDelete_absent mapDelete_found mapGet_mapDelete
      case_prod_unfold Let_def)

lemma deleteInventoryItem_never_fails: "fst (deleteInventoryItem id' s) = Inr ()"
  by (simp add: deleteInventoryItem_def Let_def)

text \<open>
  C6. \<^verbatim>\<open>deleteTransaction\<close> checks that the id is stored and fails with "Transaction not
  found" otherwise. \<^verbatim>\<open>deleteInventoryItem\<close> does not look at what \<^verbatim>\<open>Map.delete\<close>
  returns: for an id that the store does not hold it returns normally and leaves the
  store as it was, where its HTTP handler expects "Inventory item not found".
\<close>

theorem deleteInventoryItem_missing_id_succeeds:
  "mapGet (ascii ''item-9'') (items cementStore) = None
   \<and> deleteInventoryItem (ascii ''item-9'') cementStore = (Inr (), cementStore)"
  by (simp add: deleteInventoryItem_def mapGet_def mapDelete_def cementStore_def
      emptyStore_def ascii_def Let_def)

section \<open>Deleting a project\<close>

lemma foldl_delete_filter:
  "foldl (\<lambda>acc v. if P v then snd (mapDelete (ident v) acc) else acc) m vs
     = filter (\<lambda>e. fst e \<notin> ident ` {v \<in> set vs. P v}) m"
proof (induction vs arbitrary: m)
  case Nil
  then show ?case by simp
next
  case (Cons v vs)
  have "filter (\<lambda>e. fst e \<notin> ident ` {w \<in> set vs. P w}) (AList.delete (ident v) m)
      = filter (\<lambda>e. fst e \<notin> ident ` {w \<in> set (v # vs). P w}) m" if "P v"
    using that by (auto simp: AList.delete_eq intro!: filter_cong)
  moreover have "{w \<in> set (v # vs). P w} = {w \<in> set vs. P w}" if "\<not> P v"
    using that by auto
  ultimately show ?case
    using Cons.IH by (simp add: mapDelete_def)
qed

lemma keyed_filter_values:
  assumes "keyed ident m"
  shows "filter (\<lambda>e. fst e \<notin> ident ` {v \<in> set (mapValues m). P v}) m
       = filter (\<lambda>e. \<not> P (snd e)) m"
proof (rule filter_cong [OF refl])
  fix e assume e: "e \<in> set m"
  obtain k v where kv: "e = (k, v)" by (cases e)
  have idv: "ident v = k"
    using assms e kv by (auto simp: keyed_def list_all_iff)
  have "P v" if "k \<in> ident ` {w \<in> set (mapValues m). P w}"
  proof -
    from that obtain w k' where w: "(k', w) \<in> set m" "P w" "ident w = k"
      by (auto simp: mapValues_def)
    then have "k' = k" using assms by (auto simp: keyed_def list_all_iff)
    with w e kv assms have "w = v"
      by (auto simp: keyed_def dest: eq_key_imp_eq_value)
    with w show ?thesis by simp
  qed
  moreover have "k \<in> ident ` {w \<in> set (mapValues m). P w}" if "P v"
    using that e kv idv by (force simp: mapValues_def)
  ultimately show "(fst e \<notin> ident ` {v \<in> set (mapValues m). P v}) = (\<not> P (snd e))"
    using kv by auto
qed

lemma deleteCostsOf_keyed:
  "keyed cost_id m \<Longrightarrow> deleteCostsOf id' m = filter (\<lambda>e. cost_projectId (snd e) \<noteq> id') m"
  unfolding deleteCostsOf_def
  by (simp add: foldl_delete_filter keyed_filter_values)

lemma deleteSalesOf_keyed:
  "keyed sale_id m \<Longrightarrow> deleteSalesOf id' m = filter (\<lambda>e. sale_projectId (snd e) \<noteq> id') m"
  unfolding deleteSalesOf_def
  by (simp add: foldl_delete_filter keyed_filter_values)

text \<open>
  C7. \<^verbatim>\<open>deleteProject\<close> fails with "Project not found" and leaves the store as it was
  when the id is not stored. When it is stored, in a store whose records are kept under
  their own ids (as every store reached by the operations is), the call succeeds, a later
  lookup of the project or of its snapshot finds nothing, and the costs and sales that
  remain are exactly those of the other projects.
\<close>

theorem deleteProject_cascade:
  "(getProjectById id' s = None \<longrightarrow> deleteProject id' s = (Inl ProjectNotFound, s))
   \<and> (getProjectById id' s \<noteq> None \<and> storeInv s \<longrightarrow>
        (\<exists>s'. deleteProject id' s = (Inr (), s')
           \<and> getProjectById id' s' = None \<and> getProjectSnapshot id' s' = None
           \<and> mapValues (costs s')
               = filter (\<lambda>c. cost_projectId c \<noteq> id') (mapValues (costs s))
           \<and> mapValues (sales s')
               = filter (\<lambda>x. sale_projectId x \<noteq> id') (mapValues (sales s))
           \<and> (\<forall>c \<in> set (mapValues (costs s')). cost_projectId c \<noteq> id')
           \<and> (\<forall>x \<in> set (mapValues (sales s')). sale_projectId x \<noteq> id')))"
proof (intro conjI impI)
  assume "getProjectById id' s = None"
  then show "deleteProject id' s = (Inl ProjectNotFound, s)"
    by (simp add: getProjectById_def deleteProject_def mapDelete_absent)
next
  assume a: "getProjectById id' s \<noteq> None \<and> storeInv s"
  then obtain p where p: "mapGet id' (projects s) = Some p"
    by (auto simp: getProjectById_def)
  have found: "fst (mapDelete id' (projects s))"
    using mapDelete_present [OF p] by simp
  have kc: "keyed cost_id (costs s)" and ks: "keyed sale_id (sales s)"
    using a by (simp_all add: storeInv_def)
  let ?s' = "s\<lparr>projects := snd (mapDelete id' (projects s)),
                costs := deleteCostsOf id' (costs s),
                sales := deleteSalesOf id' (sales s)\<rparr>"
  have run: "deleteProject id' s = (Inr (), ?s')"
    using found by (simp add: deleteProject_def case_prod_unfold Let_def)
  have gone: "getProjectById id' ?s' = None"
    by (simp add: getProjectById_def mapGet_mapDelete)
  then have snap: "getProjectSnapshot id' ?s' = None"
    by (simp add: getProjectSnapshot_def)
  have c: "mapValues (costs ?s') = filter (\<lambda>c. cost_projectId c \<noteq> id') (mapValues (costs s))"
    using kc mapValues_filter_snd [of "\<lambda>c. cost_projectId c \<noteq> id'" "costs s"]
    by (simp add: deleteCostsOf_keyed)
  have x: "mapValues (sales ?s') = filter (\<lambda>x. sale_projectId x \<noteq> id') (mapValues (sales s))"
    using ks mapValues_filter_snd [of "\<lambda>x. sale_projectId x \<noteq> id'" "sales s"]
    by (simp add: deleteSalesOf_keyed)
  have "\<forall>c \<in> set (mapValues (costs ?s')). cost_projectId c \<noteq> id'"
    unfolding c by simp
  moreover have "\<forall>x \<in> set (mapValues (sales ?s')). sale_projectId x \<noteq> id'"
    unfolding x by simp
  ultimately show "\<exists>s'. deleteProject id' s = (Inr (), s')
           \<and> getProjectById id' s' = None \<and> getProjectSnapshot id' s' = None
           \<and> mapValues (costs s')
               = filter (\<lambda>c. cost_projectId c \<noteq> id') (mapValues (costs s))
           \<and> mapValues (sales s')
               = filter (\<lambda>x. sale_projectId x \<noteq> id') (mapValues (sales s))
           \<and> (\<forall>c \<in> set (mapValues (costs s')). cost_projectId c \<noteq> id')
           \<and> (\<forall>x \<in> set (mapValues (sales s')). sale_projectId x \<noteq> id')"
    using run gone snap c x by blast
qed

theorem deleteProject_cascade_witness:
  "getProjectById (ascii ''p1'') towerStore \<noteq> None \<and> storeInv towerStore
   \<and> (\<exists>s'. deleteProject (ascii ''p1'') towerStore = (Inr (), s')
         \<and> getProjectById (ascii ''p1'') s' = None
         \<and> getProjectSnapshot (ascii ''p1'') s' = None
         \<and> mapValues (costs s') = [towerCost ''c2'' ''p2'']
         \<and> mapValues (sales s') = [])
   \<and> getProjectById (ascii ''p2'') towerStore = None
   \<and> deleteProject (ascii ''p2'') towerStore = (Inl ProjectNotFound, towerStore)"
proof -
  have h1: "getProjectById (ascii ''p1'') towerStore \<noteq> None"
    by (simp add: getProjectById_def mapGet_def towerStore_def)
  have h2: "storeInv towerStore"
    by (simp add: storeInv_def keyed_def towerStore_def emptyStore_def towerCost_def
        towerSale_def ascii_def)
  have h3: "getProjectById (ascii ''p2'') towerStore = None"
    by (simp add: getProjectById_def mapGet_def towerStore_def ascii_def)
  have c: "filter (\<lambda>c. cost_projectId c \<noteq> ascii ''p1'') (mapValues (costs towerStore))
      = [towerCost ''c2'' ''p2'']"
    by (simp add: mapValues_def towerStore_def towerCost_def ascii_def)
  have x: "filter (\<lambda>x. sale_projectId x \<noteq> ascii ''p1'') (mapValues (sales towerStore)) = []"
    by (simp add: mapValues_def towerStore_def towerSale_def)
  from h1 h2 h3 deleteProject_cascade [of "ascii ''p1''" towerStore]
    deleteProject_cascade [of "ascii ''p2''" towerStore]
  show ?thesis unfolding c x by blast
qed

section \<open>The order of the snapshot\<close>

lemma mset_insertBefore: "mset (insertBefore cmp x xs) = add_mset x (mset xs)"
  by (induction xs) auto

lemma mset_jsSort: "mset (jsSort cmp xs) = mset xs"
  unfolding jsSort_def by (induction xs) (auto simp: mset_insertBefore)

lemma set_insertBefore: "set (insertBefore cmp x xs) = insert x (set xs)"
  by (induction xs) auto

lemma sorted_insertBefore:
  assumes total: "\<And>a b. 0 < cmp a b \<Longrightarrow> cmp b a \<le> 0"
    and trans: "\<And>a b c. cmp a b \<le> 0 \<Longrightarrow> cmp b c \<le> 0 \<Longrightarrow> cmp a c \<le> 0"
  shows "sorted_wrt (\<lambda>a b. cmp a b \<le> 0) xs \<Longrightarrow>
           sorted_wrt (\<lambda>a b. cmp a b \<le> 0) (insertBefore cmp x xs)"
proof (induction xs)
  case Nil
  then show ?case by simp
next
  case (Cons y ys)
  show ?case
  proof (cases "cmp x y \<le> 0")
    case True
    then have "\<forall>z \<in> set ys. cmp x z \<le> 0"
      using Cons.prems trans by auto
    with True Cons.prems show ?thesis by simp
  next
    case False
    then have "cmp y x \<le> 0" using total by simp
    with False Cons show ?thesis by (auto simp: set_insertBefore)
  qed
qed

text \<open>The sort is stable: elements that compare as equal keep their order.\<close>

lemma filter_insertBefore:
  assumes "\<And>a b. P a \<Longrightarrow> P b \<Longrightarrow> cmp a b \<le> 0"
  shows "filter P (insertBefore cmp x xs) = (if P x then x # filter P xs else filter P xs)"
  using assms by (induction xs) auto

lemma jsSort_stable:
  assumes "\<And>a b. P a \<Longrightarrow> P b \<Longrightarrow> cmp a b \<le> 0"
  shows "filter P (jsSort cmp xs) = filter P xs"
  unfolding jsSort_def
  by (induction xs) (simp_all add: filter_insertBefore [OF assms])

lemma sorted_jsSort:
  assumes "\<And>a b. 0 < cmp a b \<Longrightarrow> cmp b a \<le> 0"
    and "\<And>a b c. cmp a b \<le> 0 \<Longrightarrow> cmp b c \<le> 0 \<Longrightarrow> cmp a c \<le> 0"
  shows "sorted_wrt (\<lambda>a b. cmp a b \<le> 0) (jsSort cmp xs)"
  unfolding jsSort_def
  by (induction xs) (simp_all add: sorted_insertBefore [OF assms])

lemma compareTransactions_le:
  "compareTransactions a b \<le> 0 \<longleftrightarrow>
     tx_date b < tx_date a \<or> (tx_date a = tx_date b \<and> createdAtOrEmpty b \<le> createdAtOrEmpty a)"
  by (auto simp: compareTransactions_def Let_def)

text \<open>
  C9. The transactions of the snapshot are a permutation of the stored transactions, in
  descending order of date and, among equal dates, in descending order of the creation
  timestamp \<^verbatim>\<open>createdAt\<close>, where an absent timestamp counts as the empty string and so
  comes after every timestamp of the same date.
\<close>

theorem snapshot_transactions_sorted:
  "mset (snap_transactions (getFallbackSnapshot s)) = mset (mapValues (transactions s))
   \<and> sorted_wrt (\<lambda>a b. tx_date b < tx_date a
        \<or> (tx_date a = tx_date b
            \<and> (case tx_createdAt b of None \<Rightarrow> [] | Some cb \<Rightarrow> cb)
                \<le> (case tx_createdAt a of None \<Rightarrow> [] | Some ca \<Rightarrow> ca)))
       (snap_transactions (getFallbackSnapshot s))"
proof -
  have "sorted_wrt (\<lambda>a b. compareTransactions a b \<le> 0)
          (jsSort compareTransactions (mapValues (transactions s)))"
  proof (rule sorted_jsSort)
    fix a b assume "0 < compareTransactions a b"
    then show "compareTransactions b a \<le> 0"
      by (auto simp: compareTransactions_def Let_def split: if_splits)
  next
    fix a b c
    assume "compareTransactions a b \<le> 0" "compareTransactions b c \<le> 0"
    then show "compareTransactions a c \<le> 0"
      unfolding compareTransactions_le by auto
  qed
  then have "sorted_wrt (\<lambda>a b. tx_date b < tx_date a
        \<or> (tx_date a = tx_date b
            \<and> (case tx_createdAt b of None \<Rightarrow> [] | Some cb \<Rightarrow> cb)
                \<le> (case tx_createdAt a of None \<Rightarrow> [] | Some ca \<Rightarrow> ca)))
       (jsSort compareTransactions (mapValues (transactions s)))"
    by (simp add: compareTransactions_le createdAtOrEmpty_def)
  then show ?thesis
    by (simp add: getFallbackSnapshot_def sortTransactions_def mset_jsSort)
qed

text \<open>The example of the specification: entries dated 2024-01-01, 2024-03-01 and
  2024-02-01 come back as 03-01, 02-01, 01-01. And a tie: of three entries dated
  2024-03-01, stored as \<open>d\<close> (no timestamp), \<open>a\<close> (08:00:00), \<open>b\<close> (08:00:05), the
  snapshot lists \<open>b\<close>, \<open>a\<close>, \<open>d\<close>, and after them \<open>c\<close> of the earlier date.\<close>

theorem snapshot_transactions_sorted_witness:
  "map tx_date (mapValues (transactions ledgerStore))
      = [ascii ''2024-01-01'', ascii ''2024-03-01'', ascii ''2024-02-01'']
   \<and> map tx_date (snap_transactions (getFallbackSnapshot ledgerStore))
      = [ascii ''2024-03-01'', ascii ''2024-02-01'', ascii ''2024-01-01'']
   \<and> mset (snap_transactions (getFallbackSnapshot ledgerStore))
      = mset (mapValues (transactions ledgerStore))
   \<and> map tx_id (mapValues (transactions tieStore))
      = [ascii ''d'', ascii ''a'', ascii ''b'', ascii ''c'']
   \<and> map tx_id (snap_transactions (getFallbackSnapshot tieStore))
      = [ascii ''b'', ascii ''a'', ascii ''d'', ascii ''c'']
   \<and> map tx_createdAt (snap_transactions (getFallbackSnapshot tieStore))
      = [Some (ascii ''2024-04-01T08:00:05.000Z''), Some (ascii ''2024-04-01T08:00:00.000Z''),
         None, Some (ascii ''2024-04-01T08:00:09.000Z'')]
   \<and> mset (snap_transactions (getFallbackSnapshot tieStore))
      = mset (mapValues (transactions tieStore))
   \<and> sorted_wrt (\<lambda>a b. tx_date b < tx_date a
        \<or> (tx_date a = tx_date b
            \<and> (case tx_createdAt b of None \<Rightarrow> [] | Some cb \<Rightarrow> cb)
                \<le> (case tx_createdAt a of None \<Rightarrow> [] | Some ca \<Rightarrow> ca)))
       (snap_transactions (getFallbackSnapshot tieStore))"
proof -
  have dates: "map tx_date (snap_transactions (getFallbackSnapshot ledgerStore))
      = [ascii ''2024-03-01'', ascii ''2024-02-01'', ascii ''2024-01-01'']"
    by (simp add: getFallbackSnapshot_def sortTransactions_def jsSort_def
        compareTransactions_def createdAtOrEmpty_def mapValues_def ledgerStore_def
        ledgerEntry_def ascii_def Let_def)
  have stored: "map tx_date (mapValues (transactions ledgerStore))
      = [ascii ''2024-01-01'', ascii ''2024-03-01'', ascii ''2024-02-01'']"
    by (simp add: mapValues_def ledgerStore_def ledgerEntry_def)
  have tie_stored: "map tx_id (mapValues (transactions tieStore))
      = [ascii ''d'', ascii ''a'', ascii ''b'', ascii ''c'']"
    by (simp add: mapValues_def tieStore_def ledgerEntry_def)
  have tie: "snap_transactions (getFallbackSnapshot tieStore)
      = [ledgerEntry ''b'' ''2024-03-01'' ''2024-04-01T08:00:05.000Z'',
         ledgerEntry ''a'' ''2024-03-01'' ''2024-04-01T08:00:00.000Z'',
         (ledgerEntry ''d'' ''2024-03-01'' [])\<lparr>tx_createdAt := None\<rparr>,
         ledgerEntry ''c'' ''2024-01-01'' ''2024-04-01T08:00:09.000Z'']"
    by (simp add: getFallbackSnapshot_def sortTransactions_def jsSort_def
        compareTransactions_def createdAtOrEmpty_def mapValues_def tieStore_def
        ledgerEntry_def ascii_def Let_def)
  have tie_ids: "map tx_id (snap_transactions (getFallbackSnapshot tieStore))
      = [ascii ''b'', ascii ''a'', ascii ''d'', ascii ''c'']"
    and tie_created: "map tx_createdAt (snap_transactions (getFallbackSnapshot tieStore))
      = [Some (ascii ''2024-04-01T08:00:05.000Z''), Some (ascii ''2024-04-01T08:00:00.000Z''),
         None, Some (ascii ''2024-04-01T08:00:09.000Z'')]"
    unfolding tie by (simp_all add: ledgerEntry_def)
  from dates stored tie_stored tie_ids tie_created
    snapshot_transactions_sorted [of ledgerStore] snapshot_transactions_sorted [of tieStore]
  show ?thesis by blast
qed

end
